theory Spec2Isabelle
  imports Complex_Main "HOL-Library.Word" "HOL-Library.Sublist"
begin

section \<open>Values\<close>

text \<open>
  Decoded JSON documents, as Python's \<open>json.loads\<close> builds them: \<open>None\<close>, \<open>bool\<close>,
  \<open>int\<close>, \<open>float\<close>, \<open>str\<close>, \<open>list\<close> and \<open>dict\<close>. A dictionary is an association list
  in insertion order whose keys are distinct; \<open>k in d\<close> is \<open>map_of d k \<noteq> None\<close> and
  \<open>d[k]\<close> is \<open>map_of d k\<close>. A float is the rational it denotes (NaN and the
  infinities are left out). Text is a \<open>string\<close>, one \<open>char\<close> per code point below 256.
\<close>

datatype json =
    JNull
  | JBool bool
  | JInt int
  | JFloat rat
  | JStr string
  | JArr "json list"
  | JObj "(string \<times> json) list"


text \<open>\<open>type(v).__name__\<close>.\<close>

fun type_name :: "json \<Rightarrow> string" where
  "type_name JNull = ''NoneType''"
| "type_name (JBool b) = ''bool''"
| "type_name (JInt i) = ''int''"
| "type_name (JFloat r) = ''float''"
| "type_name (JStr s) = ''str''"
| "type_name (JArr xs) = ''list''"
| "type_name (JObj d) = ''dict''"

text \<open>
  The characters \<open>str.strip()\<close> and \<open>str.split()\<close> treat as whitespace, among the code
  points below 256: TAB, LF, VT, FF, CR, FS, GS, RS, US, space, NEL and NBSP.
\<close>

definition py_isspace :: "char \<Rightarrow> bool" where
  "py_isspace c = ((of_char c :: nat) \<in> set [9, 10, 11, 12, 13, 28, 29, 30, 31, 32, 133, 160])"


text \<open>\<open>s.split()\<close>: the maximal runs of non-whitespace characters; \<open>w\<close> is the run being
  read, reversed.\<close>

fun split_from :: "string \<Rightarrow> string \<Rightarrow> string list" where
  "split_from w [] = (if w = [] then [] else [rev w])"
| "split_from w (c # cs) =
     (if py_isspace c
      then (if w = [] then split_from [] cs else rev w # split_from [] cs)
      else split_from (c # w) cs)"

definition py_split :: "string \<Rightarrow> string list" where
  "py_split s = split_from [] s"

section \<open>Exceptions\<close>

text \<open>
  Every exception the modelled code raises is a value. \<open>MessageProcessingError\<close>,
  \<open>ValidationError\<close> and \<open>SNSPublishError\<close> are the repository's own classes; their
  argument stands for the formatted message: the message id and the numbers it
  interpolates, or the exception whose \<open>str(e)\<close> it embeds. \<open>client_exc\<close> is what a call
  of the transport client raises: botocore's \<open>ClientError\<close> and \<open>BotoCoreError\<close>, or
  anything else. \<open>loads_exc\<close> is what \<open>json.loads\<close> raises on a text: \<open>JSONDecodeError\<close> on
  text that is not JSON, \<open>ValueError\<close> on an integer literal beyond the digit limit of
  \<open>int\<close>, \<open>RecursionError\<close> on nesting beyond the recursion limit. \<open>PyException\<close> is an
  arbitrary other exception, as a stub raises.
\<close>

datatype validation_msg =
    BodyNotObject          \<comment> \<open>"Message body must be a JSON object"\<close>
  | MessageRequired        \<comment> \<open>"Message field is required"\<close>
  | MessageEmpty           \<comment> \<open>"Message cannot be empty"\<close>
  | SizeOverLimit nat nat  \<comment> \<open>"Message size (.. bytes) exceeds limit (.. bytes)"\<close>
  | InvalidBodyJSON        \<comment> \<open>"Invalid JSON in request body: .."\<close>

datatype client_exc = ClientError string | BotoCoreError string | OtherException string

datatype loads_exc = JSONDecodeError | ValueError | RecursionError

datatype exc =
    Loads loads_exc
  | AttributeError
  | TypeError
  | PyException string
  | Client client_exc
  | ValidationError validation_msg
  | SNSPublishError publish_msg
  | MessageProcessingError processing_msg
and publish_msg =
    TopicNotSet            \<comment> \<open>"SNS_TOPIC_ARN environment variable not set"\<close>
  | AttemptsFailed int client_exc \<comment> \<open>"Failed to publish message after .. attempts: .."\<close>
and processing_msg =
    InvalidJSON json            \<comment> \<open>"Invalid JSON in SNS message ..: .."\<close>
  | MustBeObject json           \<comment> \<open>"Message .. must be a JSON object"\<close>
  | MissingField json string    \<comment> \<open>"Message .. missing required field: .."\<close>
  | SizeExceeds json nat        \<comment> \<open>"Message .. size (.. bytes) exceeds limit"\<close>
  | ContentFailed exc           \<comment> \<open>"Failed to process message content: .."\<close>
  | UnexpectedError exc         \<comment> \<open>"Unexpected error processing SNS record: .."\<close>

fun is_MessageProcessingError :: "exc \<Rightarrow> bool" where
  "is_MessageProcessingError (MessageProcessingError m) = True"
| "is_MessageProcessingError e = False"

text \<open>
  Values of the dictionaries the code builds: a decoded value carried over (or a
  literal), the text \<open>str(e)\<close> of an exception, a nested dictionary, or the reading of
  the clock \<open>datetime.utcnow().isoformat()\<close>, which is not modelled further.
\<close>

datatype pyval =
    J json
  | ErrText exc
  | Dict "(string \<times> pyval) list"
  | Timestamp

type_synonym pydict = "(string \<times> pyval) list"

text \<open>\<open>d.get(k, default)\<close> on a value that need not be a dictionary.\<close>

fun py_get :: "json \<Rightarrow> string \<Rightarrow> json \<Rightarrow> exc + json" where
  "py_get (JObj d) k dflt = Inr (case map_of d k of Some v \<Rightarrow> v | None \<Rightarrow> dflt)"
| "py_get v k dflt = Inl AttributeError"

section \<open>Subscriber: content handlers\<close>

text \<open>
  \<open>process_text_message\<close>: the log line slices \<open>text_content[:100]\<close> before anything
  else, which only a \<open>str\<close> or a \<open>list\<close> allows; a list then has no \<open>split\<close>.
\<close>

fun process_text_message :: "json \<Rightarrow> exc + pydict" where
  "process_text_message (JStr text_content) =
     Inr [(''type'', J (JStr ''text'')),
          (''wordCount'', J (JInt (int (length (py_split text_content))))),
          (''charCount'', J (JInt (int (length text_content)))),
          (''processed'', J (JBool True))]"
| "process_text_message (JArr xs) = Inl AttributeError"
| "process_text_message v = Inl TypeError"

fun process_order_message :: "json \<Rightarrow> exc + pydict" where
  "process_order_message (JObj order_data) =
     Inr [(''type'', J (JStr ''order'')),
          (''orderId'', J (case map_of order_data ''id'' of Some v \<Rightarrow> v | None \<Rightarrow> JStr ''unknown'')),
          (''totalAmount'', J (case map_of order_data ''total'' of Some v \<Rightarrow> v | None \<Rightarrow> JInt 0)),
          (''processed'', J (JBool True))]"
| "process_order_message v = Inl AttributeError"

fun process_event_message :: "json \<Rightarrow> exc + pydict" where
  "process_event_message (JObj event_data) =
     Inr [(''type'', J (JStr ''event'')),
          (''eventType'', J (case map_of event_data ''type'' of Some v \<Rightarrow> v | None \<Rightarrow> JStr ''unknown'')),
          (''eventTimestamp'', (case map_of event_data ''timestamp'' of Some v \<Rightarrow> J v | None \<Rightarrow> Timestamp)),
          (''processed'', J (JBool True))]"
| "process_event_message v = Inl AttributeError"

definition process_generic_message :: "json \<Rightarrow> exc + pydict" where
  "process_generic_message data =
     Inr [(''type'', J (JStr ''generic'')),
          (''dataType'', J (JStr (type_name data))),
          (''processed'', J (JBool True))]"

text \<open>
  The \<open>if\<close>/\<open>elif\<close> chain of \<open>process_message_content\<close> over \<open>data\<close>: each test is
  \<open>isinstance(data, dict) and k in data\<close>, and the handler receives \<open>data[k]\<close>.
\<close>

definition dispatch :: "json \<Rightarrow> exc + pydict" where
  "dispatch data =
     (case data of
        JObj d \<Rightarrow>
          (case map_of d ''message'' of
             Some m \<Rightarrow> process_text_message m
           | None \<Rightarrow>
               (case map_of d ''order'' of
                  Some ord \<Rightarrow> process_order_message ord
                | None \<Rightarrow>
                    (case map_of d ''event'' of
                       Some ev \<Rightarrow> process_event_message ev
                     | None \<Rightarrow> process_generic_message data)))
      | _ \<Rightarrow> process_generic_message data)"

text \<open>
  \<open>process_message_content\<close>: \<open>message\<close> is the parsed envelope, which the caller has
  validated to be a dictionary; on any other value \<open>message.get\<close> raises. Every
  exception inside is re-raised as \<open>MessageProcessingError\<close>.
\<close>

definition process_message_content :: "json \<Rightarrow> exc + pydict" where
  "process_message_content message =
     (case py_get message ''data'' (JObj []) of
        Inl e \<Rightarrow> Inl (MessageProcessingError (ContentFailed e))
      | Inr data \<Rightarrow>
          (case dispatch data of
             Inl e \<Rightarrow> Inl (MessageProcessingError (ContentFailed e))
           | Inr result \<Rightarrow>
               Inr [(''type'', (case map_of result ''type'' of Some t \<Rightarrow> t | None \<Rightarrow> J (JStr ''generic''))),
                    (''processed'', J (JBool True)),
                    (''details'', Dict result),
                    (''processingTime'', Timestamp)]))"

section \<open>Configuration and library functions\<close>

text \<open>
  The process environment \<open>os.environ\<close> is a map from names to values. Both
  \<open>Config\<close> classes (\<open>publisher/config.py\<close> and \<open>subscriber/config.py\<close>) are functions of
  it: \<open>MAX_MESSAGE_SIZE = 256 * 1024\<close> in each.
\<close>

type_synonym environ = "string \<rightharpoonup> string"

definition publisher_MAX_MESSAGE_SIZE :: "environ \<Rightarrow> nat" where
  "publisher_MAX_MESSAGE_SIZE env = 256 * 1024"

definition subscriber_MAX_MESSAGE_SIZE :: "environ \<Rightarrow> nat" where
  "subscriber_MAX_MESSAGE_SIZE env = 256 * 1024"

text \<open>
  \<open>json.loads\<close> and \<open>json.dumps\<close> are the standard library's and are parameters of
  the functions that call them: \<open>loads s\<close> is the decoded value, or the exception
  \<open>json.loads\<close> raises on \<open>s\<close>, and \<open>dumps v\<close> is the ASCII text \<open>json.dumps\<close> returns, so that
  \<open>len(json.dumps(v).encode('utf-8'))\<close> is \<open>length (dumps v)\<close>.
\<close>

type_synonym loads_fn = "string \<Rightarrow> loads_exc + json"
type_synonym dumps_fn = "json \<Rightarrow> string"

text \<open>
  \<open>str(uuid.uuid4())\<close> on the 128 random bits \<open>r\<close>: the variant and version fields are
  overwritten, and the number is printed as 32 hexadecimal digits in groups of
  8, 4, 4, 4 and 12.
\<close>

unbundle bit_operations_syntax

definition hex_digit :: "nat \<Rightarrow> char" where
  "hex_digit n = ''0123456789abcdef'' ! n"

definition uuid4_bits :: "128 word \<Rightarrow> 128 word" where
  "uuid4_bits r =
     (((r AND NOT (push_bit 48 0xc000)) OR push_bit 48 0x8000)
        AND NOT (push_bit 64 0xf000)) OR push_bit 76 4"

definition uuid_hex :: "128 word \<Rightarrow> string" where
  "uuid_hex w = map (\<lambda>i. hex_digit (unat (drop_bit (4 * (31 - i)) w AND 15))) [0..<32]"

definition uuid_str :: "128 word \<Rightarrow> string" where
  "uuid_str w =
     (let h = uuid_hex w
      in take 8 h @ ''-'' @ take 4 (drop 8 h) @ ''-'' @ take 4 (drop 12 h) @ ''-''
         @ take 4 (drop 16 h) @ ''-'' @ drop 20 h)"

definition uuid4 :: "128 word \<Rightarrow> string" where
  "uuid4 r = uuid_str (uuid4_bits r)"

text \<open>Sequencing of steps that may raise: the first exception ends the sequence.\<close>

definition bnd :: "exc + 'a \<Rightarrow> ('a \<Rightarrow> exc + 'b) \<Rightarrow> exc + 'b" where
  "bnd m f = (case m of Inl e \<Rightarrow> Inl e | Inr x \<Rightarrow> f x)"

section \<open>Subscriber: one record\<close>

text \<open>
  \<open>extract_correlation_id\<close>. The test \<open>'CorrelationId' in message_attributes\<close> is a key
  test on a dictionary, a membership test on a list, a substring test on a string,
  and raises on anything else; the subscript that follows raises on a list or a
  string. \<open>r\<close> is the random bits the call to \<open>uuid.uuid4()\<close> draws.
\<close>

definition from_body :: "json \<Rightarrow> string \<Rightarrow> json \<Rightarrow> json" where
  "from_body parsed_message k dflt =
     (case parsed_message of
        JObj d \<Rightarrow> (case map_of d k of Some v \<Rightarrow> v | None \<Rightarrow> dflt)
      | _ \<Rightarrow> dflt)"

definition extract_field :: "json \<Rightarrow> string \<Rightarrow> json \<Rightarrow> string \<Rightarrow> json \<Rightarrow> exc + json" where
  "extract_field message_attributes attr parsed_message k dflt =
     (case message_attributes of
        JObj d \<Rightarrow>
          (case map_of d attr of
             Some a \<Rightarrow> py_get a ''Value'' dflt
           | None \<Rightarrow> Inr (from_body parsed_message k dflt))
      | JArr xs \<Rightarrow>
          (if JStr attr \<in> set xs then Inl TypeError
           else Inr (from_body parsed_message k dflt))
      | JStr s \<Rightarrow>
          (if sublist attr s then Inl TypeError
           else Inr (from_body parsed_message k dflt))
      | _ \<Rightarrow> Inl TypeError)"

definition extract_correlation_id :: "128 word \<Rightarrow> json \<Rightarrow> json \<Rightarrow> exc + json" where
  "extract_correlation_id r message_attributes parsed_message =
     extract_field message_attributes ''CorrelationId'' parsed_message ''correlationId''
       (JStr (uuid4 r))"

definition extract_source :: "json \<Rightarrow> json \<Rightarrow> exc + json" where
  "extract_source message_attributes parsed_message =
     extract_field message_attributes ''Source'' parsed_message ''source'' (JStr ''unknown'')"

text \<open>\<open>validate_message_structure\<close>; \<open>required_fields\<close> is \<open>['data']\<close>.\<close>

definition validate_message_structure ::
  "environ \<Rightarrow> dumps_fn \<Rightarrow> json \<Rightarrow> json \<Rightarrow> exc + unit" where
  "validate_message_structure env dumps message message_id =
     (case message of
        JObj d \<Rightarrow>
          (if map_of d ''data'' = None
           then Inl (MessageProcessingError (MissingField message_id ''data''))
           else if length (dumps message) > subscriber_MAX_MESSAGE_SIZE env
           then Inl (MessageProcessingError (SizeExceeds message_id (length (dumps message))))
           else Inr ())
      | _ \<Rightarrow> Inl (MessageProcessingError (MustBeObject message_id)))"

text \<open>
  \<open>json.loads(message_body)\<close> inside \<open>process_sns_record\<close>: a body that is not text
  raises \<open>TypeError\<close>; a \<open>JSONDecodeError\<close> is re-raised as \<open>MessageProcessingError\<close>,
  and any other exception of the decoder passes on to the outer \<open>except\<close> clauses.
\<close>

definition parse_body :: "loads_fn \<Rightarrow> json \<Rightarrow> json \<Rightarrow> exc + json" where
  "parse_body loads message_body message_id =
     (case message_body of
        JStr s \<Rightarrow>
          (case loads s of
             Inr parsed_message \<Rightarrow> Inr parsed_message
           | Inl JSONDecodeError \<Rightarrow> Inl (MessageProcessingError (InvalidJSON message_id))
           | Inl e \<Rightarrow> Inl (Loads e))
      | _ \<Rightarrow> Inl TypeError)"

text \<open>
  The body of the outer \<open>try\<close> of \<open>process_sns_record\<close>.
  \<open>store_processing_result\<close> catches every exception and returns nothing, so it does
  not appear.
\<close>

definition process_sns_record_body ::
  "environ \<Rightarrow> loads_fn \<Rightarrow> dumps_fn \<Rightarrow> 128 word \<Rightarrow> json \<Rightarrow> exc + pydict" where
  "process_sns_record_body env loads dumps r record =
     bnd (py_get record ''Sns'' (JObj [])) (\<lambda>sns_data.
     bnd (py_get sns_data ''MessageId'' JNull) (\<lambda>message_id.
     bnd (py_get sns_data ''Message'' (JStr ''{}'')) (\<lambda>message_body.
     bnd (py_get sns_data ''MessageAttributes'' (JObj [])) (\<lambda>message_attributes.
     bnd (parse_body loads message_body message_id) (\<lambda>parsed_message.
     bnd (extract_correlation_id r message_attributes parsed_message) (\<lambda>correlation_id.
     bnd (extract_source message_attributes parsed_message) (\<lambda>source.
     bnd (validate_message_structure env dumps parsed_message message_id) (\<lambda>_.
     bnd (process_message_content parsed_message) (\<lambda>processing_result.
     Inr [(''status'', J (JStr ''success'')),
          (''messageId'', J message_id),
          (''correlationId'', J correlation_id),
          (''source'', J source),
          (''processingResult'', Dict processing_result),
          (''timestamp'', Timestamp)])))))))))"

text \<open>\<open>except MessageProcessingError: raise\<close>, \<open>except Exception as e: raise
  MessageProcessingError(..)\<close>.\<close>

definition process_sns_record ::
  "environ \<Rightarrow> loads_fn \<Rightarrow> dumps_fn \<Rightarrow> 128 word \<Rightarrow> json \<Rightarrow> exc + pydict" where
  "process_sns_record env loads dumps r record =
     (case process_sns_record_body env loads dumps r record of
        Inr result \<Rightarrow> Inr result
      | Inl e \<Rightarrow>
          (if is_MessageProcessingError e then Inl e
           else Inl (MessageProcessingError (UnexpectedError e))))"

section \<open>Subscriber: the batch\<close>

text \<open>
  What \<open>lambda_handler\<close> returns: the batch summary, or the reply of the outermost
  \<open>except\<close> (status code 500, no per-record detail).
\<close>

record summary =
  statusCode :: nat
  processedRecords :: nat
  successfulRecords :: nat
  failedRecords :: nat
  results :: "pydict list"

datatype response = Summary summary | CriticalError

text \<open>
  \<open>record.get('Sns', {}).get('MessageId', 'unknown')\<close>, evaluated inside both
  \<open>except\<close> clauses of the loop.
\<close>

definition record_id :: "json \<Rightarrow> exc + json" where
  "record_id record =
     bnd (py_get record ''Sns'' (JObj [])) (\<lambda>sns. py_get sns ''MessageId'' (JStr ''unknown''))"

definition failure_entry :: "exc \<Rightarrow> json \<Rightarrow> pydict" where
  "failure_entry e rid =
     [(''status'', J (JStr (if is_MessageProcessingError e then ''failed'' else ''error''))),
      (''error'', ErrText e),
      (''record_id'', J rid)]"

text \<open>
  The loop over the records. \<open>proc i record\<close> is the call of the per-record
  processor on the \<open>i\<close>-th record (the module-level name \<open>process_sns_record\<close>, which
  the unit tests replace by a stub). The state is \<open>successful_records\<close>,
  \<open>failed_records\<close> and \<open>processing_results\<close>; an exception raised inside an \<open>except\<close>
  clause leaves the loop.
\<close>

fun process_records ::
  "(nat \<Rightarrow> json \<Rightarrow> exc + pydict) \<Rightarrow> nat \<Rightarrow> json list \<Rightarrow> nat \<times> nat \<times> pydict list
     \<Rightarrow> exc + (nat \<times> nat \<times> pydict list)" where
  "process_records proc i [] st = Inr st"
| "process_records proc i (record # records) (successful_records, failed_records, processing_results) =
     (case proc i record of
        Inr result \<Rightarrow>
          process_records proc (Suc i) records
            (successful_records + 1, failed_records, processing_results @ [result])
      | Inl e \<Rightarrow>
          (case record_id record of
             Inl e' \<Rightarrow> Inl e'
           | Inr rid \<Rightarrow>
               process_records proc (Suc i) records
                 (successful_records, failed_records + 1,
                  processing_results @ [failure_entry e rid])))"

text \<open>
  \<open>event.get('Records', [])\<close> as the sequence the \<open>for\<close> loop walks: a list gives
  its elements, a string its characters, a dictionary its keys; the \<open>len\<close> of
  anything else raises \<open>TypeError\<close>, in the log line before the \<open>try\<close>.
\<close>

definition records_of :: "(string \<times> json) list \<Rightarrow> exc + json list" where
  "records_of event =
     (case map_of event ''Records'' of
        None \<Rightarrow> Inr []
      | Some (JArr rs) \<Rightarrow> Inr rs
      | Some (JStr s) \<Rightarrow> Inr (map (\<lambda>c. JStr [c]) s)
      | Some (JObj d) \<Rightarrow> Inr (map (\<lambda>kv. JStr (fst kv)) d)
      | Some _ \<Rightarrow> Inl TypeError)"

text \<open>\<open>record_metrics\<close> catches every exception and returns nothing, so it does not
  appear.\<close>

definition lambda_handler_with ::
  "(nat \<Rightarrow> json \<Rightarrow> exc + pydict) \<Rightarrow> (string \<times> json) list \<Rightarrow> exc + response" where
  "lambda_handler_with proc event =
     bnd (records_of event) (\<lambda>records.
       (case process_records proc 0 records (0, 0, []) of
          Inl e \<Rightarrow> Inr CriticalError
        | Inr (successful_records, failed_records, processing_results) \<Rightarrow>
            Inr (Summary
              \<lparr>statusCode = (if failed_records = 0 then 200 else 207),
               processedRecords = length processing_results,
               successfulRecords = successful_records,
               failedRecords = failed_records,
               results = processing_results\<rparr>)))"

text \<open>The subscriber's \<open>lambda_handler\<close>; \<open>rnd i\<close> is the random bits available to the
  \<open>i\<close>-th record.\<close>

definition subscriber_lambda_handler ::
  "environ \<Rightarrow> loads_fn \<Rightarrow> dumps_fn \<Rightarrow> (nat \<Rightarrow> 128 word) \<Rightarrow> (string \<times> json) list
     \<Rightarrow> exc + response" where
  "subscriber_lambda_handler env loads dumps rnd event =
     lambda_handler_with (\<lambda>i. process_sns_record env loads dumps (rnd i)) event"

section \<open>Publisher\<close>




text \<open>
  \<open>publish_message\<close>. \<open>sns attempt\<close> is what the call \<open>sns_client.publish(..)\<close> of the
  given attempt does: it returns a response or raises. Only \<open>ClientError\<close> and
  \<open>BotoCoreError\<close> are caught. \<open>max_retries\<close> is \<open>Config.MAX_RETRIES\<close>, an integer; the
  loop runs over \<open>range(max_retries + 1)\<close> and the function returns \<open>None\<close> when the
  loop ends without a \<open>return\<close>.
\<close>

record publish_response =
  MessageId :: string

datatype outcome = Returns publish_response | Raises client_exc

fun is_transport_error :: "client_exc \<Rightarrow> bool" where
  "is_transport_error (ClientError m) = True"
| "is_transport_error (BotoCoreError m) = True"
| "is_transport_error e = False"

fun publish_attempts ::
  "(nat \<Rightarrow> outcome) \<Rightarrow> int \<Rightarrow> nat \<Rightarrow> nat \<Rightarrow> exc + publish_response option" where
  "publish_attempts sns max_retries attempt 0 = Inr None"
| "publish_attempts sns max_retries attempt (Suc remaining) =
     (case sns attempt of
        Returns response \<Rightarrow> Inr (Some response)
      | Raises e \<Rightarrow>
          (if is_transport_error e
           then (if int attempt = max_retries
                 then Inl (SNSPublishError (AttemptsFailed (max_retries + 1) e))
                 else publish_attempts sns max_retries (Suc attempt) remaining)
           else Inl (Client e)))"

definition publish_message ::
  "environ \<Rightarrow> (nat \<Rightarrow> outcome) \<Rightarrow> int \<Rightarrow> exc + publish_response option" where
  "publish_message env sns max_retries =
     (case env ''SNS_TOPIC_ARN'' of
        None \<Rightarrow> Inl (SNSPublishError TopicNotSet)
      | Some topic_arn \<Rightarrow>
          (if topic_arn = [] then Inl (SNSPublishError TopicNotSet)
           else publish_attempts sns max_retries 0 (nat (max_retries + 1))))"

section \<open>Predicates used in the statements\<close>

text \<open>An attempt fails at the transport layer: the call raises one of the two
  exception classes \<open>publish_message\<close> catches.\<close>

definition tfail :: "outcome \<Rightarrow> bool" where
  "tfail out = (case out of Raises e \<Rightarrow> is_transport_error e | Returns r \<Rightarrow> False)"

text \<open>A record whose id the handler can look up: a dictionary whose \<open>Sns\<close> entry, when
  there is one, is a dictionary.\<close>

definition sns_shaped :: "json \<Rightarrow> bool" where
  "sns_shaped record = (case record_id record of Inr rid \<Rightarrow> True | Inl e \<Rightarrow> False)"

text \<open>
  Finite parts of \<open>json.loads\<close> and \<open>json.dumps\<close>, for concrete inputs: the texts
  listed decode to the values given (any other text is refused), and the values
  listed serialise to the texts given.
\<close>

definition loads_of :: "(string \<times> (loads_exc + json)) list \<Rightarrow> loads_fn" where
  "loads_of table s = (case map_of table s of Some r \<Rightarrow> r | None \<Rightarrow> Inl JSONDecodeError)"

definition dumps_of :: "(json \<times> string) list \<Rightarrow> dumps_fn" where
  "dumps_of table v = (case map_of table v of Some s \<Rightarrow> s | None \<Rightarrow> [])"

text \<open>The stub of \<open>test_lambda_handler_unexpected_error\<close>, which replaces
  \<open>process_sns_record\<close> by \<open>Mock(side_effect=Exception('Unexpected error'))\<close>.\<close>

definition raising_stub :: "nat \<Rightarrow> json \<Rightarrow> exc + pydict" where
  "raising_stub i record = Inl (PyException ''Unexpected error'')"



text \<open>
  One iteration of the handler's loop, seen from outside: the entry it appends to
  the results, or the exception that leaves the loop.
\<close>

definition entry_of :: "(nat \<Rightarrow> json \<Rightarrow> exc + pydict) \<Rightarrow> nat \<Rightarrow> json \<Rightarrow> exc + pydict" where
  "entry_of proc i record =
     (case proc i record of
        Inr result \<Rightarrow> Inr result
      | Inl e \<Rightarrow> bnd (record_id record) (\<lambda>rid. Inr (failure_entry e rid)))"

text \<open>The \<open>status\<close> field of a result entry.\<close>

definition status_of :: "pydict \<Rightarrow> pyval option" where
  "status_of result = map_of result ''status''"

text \<open>
  The record the unit tests build (\<open>create_sns_record\<close>), reduced to the fields the
  handler reads, and the decoder and serialiser restricted to the messages of
  those tests.
\<close>

definition create_sns_record :: "string \<Rightarrow> string \<Rightarrow> json" where
  "create_sns_record message message_id =
     JObj [(''Sns'', JObj
       [(''MessageId'', JStr message_id),
        (''Message'', JStr message),
        (''MessageAttributes'', JObj
          [(''CorrelationId'', JObj [(''Type'', JStr ''String''), (''Value'', JStr ''test-correlation-id'')]),
           (''Source'', JObj [(''Type'', JStr ''String''), (''Value'', JStr ''publisher-lambda'')])])])]"

definition test_loads :: loads_fn where
  \<open>test_loads = loads_of
     [(''{"data": {"message": "test message"}}'',
         Inr (JObj [(''data'', JObj [(''message'', JStr ''test message'')])])),
      (''{"invalid": "structure"}'', Inr (JObj [(''invalid'', JStr ''structure'')]))]\<close>

definition test_dumps :: dumps_fn where
  \<open>test_dumps = dumps_of
     [(JObj [(''data'', JObj [(''message'', JStr ''test message'')])],
         ''{"data": {"message": "test message"}}''),
      (JObj [(''invalid'', JStr ''structure'')], ''{"invalid": "structure"}'')]\<close>


text \<open>The stub of \<open>test_publish_message_sns_error\<close>, which sets
  \<open>mock_sns_client.publish.side_effect = Exception('SNS error')\<close>: every call raises
  an exception that is neither \<open>ClientError\<close> nor \<open>BotoCoreError\<close>.\<close>

definition sns_error_stub :: "nat \<Rightarrow> outcome" where
  "sns_error_stub attempt = Raises (OtherException ''SNS error'')"

text \<open>The \<open>statusCode\<close> of the handler's reply: the critical-error reply carries 500.\<close>

definition reply_status :: "response \<Rightarrow> nat" where
  "reply_status reply = (case reply of Summary sm \<Rightarrow> statusCode sm | CriticalError \<Rightarrow> 500)"

section \<open>Publish retries\<close>

lemma publish_attempts_all_fail:
  "int a + int k = mr + 1 \<Longrightarrow> 0 < k \<Longrightarrow> (\<forall>i. a \<le> i \<and> i < a + k \<longrightarrow> tfail (sns i))
   \<Longrightarrow> \<exists>e. sns (a + k - 1) = Raises e \<and>
         publish_attempts sns mr a k = Inl (SNSPublishError (AttemptsFailed (mr + 1) e))"
proof (induction k arbitrary: a)
  case 0
  then show ?case by simp
next
  case (Suc k)
  from Suc.prems(3) have "tfail (sns a)" by simp
  then obtain e where e: "sns a = Raises e" "is_transport_error e"
    by (auto simp: tfail_def split: outcome.splits)
  show ?case
  proof (cases "k = 0")
    case True
    with Suc.prems(1) have "int a = mr" by simp
    with e True show ?thesis by simp
  next
    case False
    with Suc.prems(1) have ne: "int a \<noteq> mr" by simp
    have "\<exists>e. sns (Suc a + k - 1) = Raises e \<and>
         publish_attempts sns mr (Suc a) k = Inl (SNSPublishError (AttemptsFailed (mr + 1) e))"
      using Suc.prems False by (intro Suc.IH) auto
    with e ne show ?thesis by simp
  qed
qed

lemma publish_attempts_stop:
  "int a + int k = mr + 1 \<Longrightarrow> a \<le> j \<Longrightarrow> j < a + k \<Longrightarrow> (\<forall>i. a \<le> i \<and> i < j \<longrightarrow> tfail (sns i))
   \<Longrightarrow> \<not> tfail (sns j)
   \<Longrightarrow> publish_attempts sns mr a k =
         (case sns j of Returns r \<Rightarrow> Inr (Some r) | Raises e \<Rightarrow> Inl (Client e))"
proof (induction k arbitrary: a)
  case 0
  then show ?case by simp
next
  case (Suc k)
  show ?case
  proof (cases "a = j")
    case True
    with Suc.prems(5) show ?thesis
      by (auto simp: tfail_def split: outcome.splits)
  next
    case False
    with Suc.prems have lt: "a < j" by simp
    with Suc.prems(4) have "tfail (sns a)" by simp
    then obtain e where e: "sns a = Raises e" "is_transport_error e"
      by (auto simp: tfail_def split: outcome.splits)
    from lt Suc.prems(1,3) have ne: "int a \<noteq> mr" by linarith
    have "publish_attempts sns mr (Suc a) k =
         (case sns j of Returns r \<Rightarrow> Inr (Some r) | Raises e \<Rightarrow> Inl (Client e))"
      using Suc.prems lt by (intro Suc.IH) auto
    with e ne show ?thesis by simp
  qed
qed

text \<open>
  What the loop does for the two exception classes it catches, \<open>ClientError\<close> and
  \<open>BotoCoreError\<close>, and a non-negative \<open>MAX_RETRIES\<close>: \<open>publish_message\<close> raises
  \<open>SNSPublishError\<close> when the topic identifier is unset or empty; when the transport
  fails \<open>MAX_RETRIES\<close> times with one of the two and then succeeds, the successful
  response is returned; when it also fails the last of the \<open>MAX_RETRIES + 1\<close>
  attempts so, \<open>SNSPublishError\<close> is raised, carrying the attempt count and the last
  attempt's exception; and \<open>SNSPublishError\<close> is raised in exactly these cases.
\<close>

theorem publish_message_retries:
  assumes mr: "0 \<le> max_retries"
  shows "(env ''SNS_TOPIC_ARN'' = None \<or> env ''SNS_TOPIC_ARN'' = Some [] \<longrightarrow>
            publish_message env sns max_retries = Inl (SNSPublishError TopicNotSet))
       \<and> (env ''SNS_TOPIC_ARN'' = Some topic \<and> topic \<noteq> [] \<and>
            (\<forall>i < nat max_retries. tfail (sns i)) \<and> sns (nat max_retries) = Returns response \<longrightarrow>
            publish_message env sns max_retries = Inr (Some response))
       \<and> (env ''SNS_TOPIC_ARN'' = Some topic \<and> topic \<noteq> [] \<and>
            (\<forall>i < nat max_retries. tfail (sns i)) \<and> sns (nat max_retries) = Raises e \<and>
            is_transport_error e \<longrightarrow>
            publish_message env sns max_retries =
              Inl (SNSPublishError (AttemptsFailed (max_retries + 1) e)))
       \<and> ((\<exists>m. publish_message env sns max_retries = Inl (SNSPublishError m)) \<longleftrightarrow>
            env ''SNS_TOPIC_ARN'' = None \<or> env ''SNS_TOPIC_ARN'' = Some [] \<or>
            (\<forall>i \<le> nat max_retries. tfail (sns i)))"
proof (intro conjI impI)
  assume "env ''SNS_TOPIC_ARN'' = None \<or> env ''SNS_TOPIC_ARN'' = Some []"
  then show "publish_message env sns max_retries = Inl (SNSPublishError TopicNotSet)"
    by (auto simp: publish_message_def)
next
  assume a: "env ''SNS_TOPIC_ARN'' = Some topic \<and> topic \<noteq> [] \<and>
            (\<forall>i < nat max_retries. tfail (sns i)) \<and> sns (nat max_retries) = Returns response"
  then have nf: "\<not> tfail (sns (nat max_retries))" by (simp add: tfail_def)
  have "publish_attempts sns max_retries 0 (nat (max_retries + 1)) =
         (case sns (nat max_retries) of Returns r \<Rightarrow> Inr (Some r) | Raises e \<Rightarrow> Inl (Client e))"
    using mr a nf by (intro publish_attempts_stop) auto
  with a show "publish_message env sns max_retries = Inr (Some response)"
    by (simp add: publish_message_def)
next
  assume a: "env ''SNS_TOPIC_ARN'' = Some topic \<and> topic \<noteq> [] \<and>
            (\<forall>i < nat max_retries. tfail (sns i)) \<and> sns (nat max_retries) = Raises e \<and>
            is_transport_error e"
  then have "\<forall>i. 0 \<le> i \<and> i < 0 + nat (max_retries + 1) \<longrightarrow> tfail (sns i)"
    using mr by (auto simp: tfail_def nat_add_distrib less_Suc_eq)
  with mr have "\<exists>e. sns (0 + nat (max_retries + 1) - 1) = Raises e \<and>
         publish_attempts sns max_retries 0 (nat (max_retries + 1)) =
           Inl (SNSPublishError (AttemptsFailed (max_retries + 1) e))"
    by (intro publish_attempts_all_fail) auto
  moreover have "0 + nat (max_retries + 1) - 1 = nat max_retries" using mr by (simp add: nat_add_distrib)
  ultimately show "publish_message env sns max_retries =
              Inl (SNSPublishError (AttemptsFailed (max_retries + 1) e))"
    using a by (auto simp: publish_message_def)
next
  show "(\<exists>m. publish_message env sns max_retries = Inl (SNSPublishError m)) \<longleftrightarrow>
            env ''SNS_TOPIC_ARN'' = None \<or> env ''SNS_TOPIC_ARN'' = Some [] \<or>
            (\<forall>i \<le> nat max_retries. tfail (sns i))"
  proof (cases "env ''SNS_TOPIC_ARN'' = None \<or> env ''SNS_TOPIC_ARN'' = Some []")
    case True
    then show ?thesis by (auto simp: publish_message_def)
  next
    case False
    then obtain topic where t: "env ''SNS_TOPIC_ARN'' = Some topic" "topic \<noteq> []" by auto
    then have pm: "publish_message env sns max_retries =
        publish_attempts sns max_retries 0 (nat (max_retries + 1))"
      by (simp add: publish_message_def)
    show ?thesis
    proof (cases "\<forall>i \<le> nat max_retries. tfail (sns i)")
      case True
      then have "\<forall>i. 0 \<le> i \<and> i < 0 + nat (max_retries + 1) \<longrightarrow> tfail (sns i)"
        using mr by (auto simp: nat_add_distrib)
      with mr have "\<exists>e. sns (0 + nat (max_retries + 1) - 1) = Raises e \<and>
           publish_attempts sns max_retries 0 (nat (max_retries + 1)) =
             Inl (SNSPublishError (AttemptsFailed (max_retries + 1) e))"
        by (intro publish_attempts_all_fail) auto
      with pm True show ?thesis by auto
    next
      case nall: False
      define j where "j = (LEAST i. \<not> tfail (sns i))"
      from nall obtain i0 where i0: "i0 \<le> nat max_retries" "\<not> tfail (sns i0)" by auto
      then have nj: "\<not> tfail (sns j)" unfolding j_def by (metis LeastI)
      have jle: "j \<le> i0" unfolding j_def using i0(2) by (rule Least_le)
      have before: "\<forall>i. 0 \<le> i \<and> i < j \<longrightarrow> tfail (sns i)"
        unfolding j_def using not_less_Least by blast
      have "publish_attempts sns max_retries 0 (nat (max_retries + 1)) =
         (case sns j of Returns r \<Rightarrow> Inr (Some r) | Raises e \<Rightarrow> Inl (Client e))"
        using mr jle i0(1) before nj by (intro publish_attempts_stop) auto
      with pm nall False show ?thesis by (auto split: outcome.splits)
    qed
  qed
qed

theorem publish_message_retries_witness:
  "(0::int) \<le> 3
   \<and> publish_message [''SNS_TOPIC_ARN'' \<mapsto> ''arn:aws:sns:us-east-1:123456789012:test'']
        (\<lambda>i. if i < 3 then Raises (ClientError ''Throttling'') else Returns \<lparr>MessageId = ''m-1''\<rparr>) 3
       = Inr (Some \<lparr>MessageId = ''m-1''\<rparr>)
   \<and> publish_message [''SNS_TOPIC_ARN'' \<mapsto> ''arn:aws:sns:us-east-1:123456789012:test'']
        (\<lambda>i. Raises (BotoCoreError ''timeout'')) 3
       = Inl (SNSPublishError (AttemptsFailed 4 (BotoCoreError ''timeout'')))
   \<and> publish_message Map.empty (\<lambda>i. Returns \<lparr>MessageId = ''m-1''\<rparr>) 3
       = Inl (SNSPublishError TopicNotSet)"
  using publish_message_retries [of 3 "[''SNS_TOPIC_ARN'' \<mapsto> ''arn:aws:sns:us-east-1:123456789012:test'']"
          "\<lambda>i. if i < 3 then Raises (ClientError ''Throttling'') else Returns \<lparr>MessageId = ''m-1''\<rparr>"
          "''arn:aws:sns:us-east-1:123456789012:test''" "\<lparr>MessageId = ''m-1''\<rparr>"]
        publish_message_retries [of 3 "[''SNS_TOPIC_ARN'' \<mapsto> ''arn:aws:sns:us-east-1:123456789012:test'']"
          "\<lambda>i. Raises (BotoCoreError ''timeout'')"
          "''arn:aws:sns:us-east-1:123456789012:test''" _ "BotoCoreError ''timeout''"]
        publish_message_retries [of 3 Map.empty "\<lambda>i. Returns \<lparr>MessageId = ''m-1''\<rparr>"]
  by (simp add: tfail_def)

text \<open>
  Claim C3 says that a transport failing all \<open>MAX_RETRIES + 1\<close> attempts makes
  \<open>publish_message\<close> raise \<open>SNSPublishError\<close> wrapping the last attempt's exception, and
  the repository's \<open>test_publish_message_sns_error\<close> expects it of a transport whose
  \<open>publish\<close> raises \<open>Exception('SNS error')\<close>. The \<open>except\<close> clause names only
  \<open>ClientError\<close> and \<open>BotoCoreError\<close>: with the topic set, \<open>MAX_RETRIES = 3\<close> and that
  transport, the exception of the first attempt leaves \<open>publish_message\<close> as it is,
  with no retry and no \<open>SNSPublishError\<close>.
\<close>

theorem publish_message_plain_exception:
  "publish_message [''SNS_TOPIC_ARN'' \<mapsto> ''arn:aws:sns:us-east-1:123456789012:test'']
      sns_error_stub 3
     = Inl (Client (OtherException ''SNS error''))"
  by (simp add: publish_message_def sns_error_stub_def numeral_eq_Suc)

text \<open>With \<open>MAX_RETRIES = -1\<close> the range of the loop is empty: nothing is published,
  nothing is raised, and \<open>publish_message\<close> returns \<open>None\<close>.\<close>

lemma publish_message_no_attempt:
  "publish_message [''SNS_TOPIC_ARN'' \<mapsto> ''arn:aws:sns:us-east-1:123456789012:test''] sns (- 1)
     = Inr None"
  by (simp add: publish_message_def)

section \<open>Classification\<close>

text \<open>
  Claim C2. Dispatch over \<open>data\<close> is first match wins: a dictionary with key
  \<open>message\<close> goes to the text handler; otherwise one with key \<open>order\<close> to the order
  handler; otherwise one with key \<open>event\<close> to the event handler; otherwise, and for
  every value that is not a dictionary, the generic handler. In particular a
  dictionary with both \<open>message\<close> (a text) and \<open>order\<close> is classified \<open>text\<close>, with the
  text handler's word and character counts as details, whatever \<open>order\<close> holds.
\<close>

theorem classifier_precedence:
  "(map_of d ''message'' = Some m \<longrightarrow> dispatch (JObj d) = process_text_message m)
   \<and> (map_of d ''message'' = None \<and> map_of d ''order'' = Some ord \<longrightarrow>
        dispatch (JObj d) = process_order_message ord)
   \<and> (map_of d ''message'' = None \<and> map_of d ''order'' = None \<and> map_of d ''event'' = Some ev \<longrightarrow>
        dispatch (JObj d) = process_event_message ev)
   \<and> (map_of d ''message'' = None \<and> map_of d ''order'' = None \<and> map_of d ''event'' = None \<longrightarrow>
        dispatch (JObj d) = process_generic_message (JObj d))
   \<and> ((\<forall>d'. v \<noteq> JObj d') \<longrightarrow> dispatch v = process_generic_message v)
   \<and> (map_of d ''message'' = Some (JStr s) \<and> map_of d ''order'' = Some ord \<and>
        map_of envelope ''data'' = Some (JObj d) \<longrightarrow>
        (\<exists>result. process_message_content (JObj envelope) = Inr result \<and>
           map_of result ''type'' = Some (J (JStr ''text'')) \<and>
           map_of result ''details'' = Some (Dict
             [(''type'', J (JStr ''text'')),
              (''wordCount'', J (JInt (int (length (py_split s))))),
              (''charCount'', J (JInt (int (length s)))),
              (''processed'', J (JBool True))])))"
  by (cases v) (auto simp: dispatch_def process_message_content_def)

theorem classifier_precedence_witness:
  "map_of [(''message'', JStr ''x''), (''order'', JObj [(''id'', JStr ''order-123'')])] ''message'' = Some (JStr ''x'')
   \<and> map_of [(''message'', JStr ''x''), (''order'', JObj [(''id'', JStr ''order-123'')])] ''order''
        = Some (JObj [(''id'', JStr ''order-123'')])
   \<and> dispatch (JObj [(''message'', JStr ''x''), (''order'', JObj [(''id'', JStr ''order-123'')])])
        = Inr [(''type'', J (JStr ''text'')), (''wordCount'', J (JInt 1)),
               (''charCount'', J (JInt 1)), (''processed'', J (JBool True))]
   \<and> dispatch (JObj [(''order'', JObj [(''id'', JStr ''order-123'')]), (''event'', JObj [])])
        = process_order_message (JObj [(''id'', JStr ''order-123'')])
   \<and> dispatch (JObj [(''event'', JObj [])]) = process_event_message (JObj [])
   \<and> dispatch (JObj [(''custom'', JStr ''data'')]) = process_generic_message (JObj [(''custom'', JStr ''data'')])
   \<and> dispatch (JInt 7) = process_generic_message (JInt 7)"
  using classifier_precedence [of "[(''message'', JStr ''x''), (''order'', JObj [(''id'', JStr ''order-123'')])]"
          "JStr ''x''" "JObj [(''id'', JStr ''order-123'')]" _ "JInt 7"]
        classifier_precedence [of "[(''order'', JObj [(''id'', JStr ''order-123'')]), (''event'', JObj [])]"
          _ "JObj [(''id'', JStr ''order-123'')]"]
        classifier_precedence [of "[(''event'', JObj [])]" _ _ "JObj []"]
        classifier_precedence [of "[(''custom'', JStr ''data'')]"]
  by (simp add: py_split_def py_isspace_def)

section \<open>The size ceiling\<close>

text \<open>
  Claim C7, as the code has it: the ceiling of the publish-side validator and of the
  receive-side structure check is 262144 bytes whatever the environment holds; no
  environment setting changes it.
\<close>

theorem max_message_size_fixed:
  "publisher_MAX_MESSAGE_SIZE env = 262144 \<and> subscriber_MAX_MESSAGE_SIZE env = 262144"
  by (simp add: publisher_MAX_MESSAGE_SIZE_def subscriber_MAX_MESSAGE_SIZE_def)

text \<open>With \<open>MAX_MESSAGE_SIZE=1024\<close> in the environment both ceilings are still 262144.\<close>

theorem max_message_size_not_configurable:
  "publisher_MAX_MESSAGE_SIZE [''MAX_MESSAGE_SIZE'' \<mapsto> ''1024''] = 262144
   \<and> subscriber_MAX_MESSAGE_SIZE [''MAX_MESSAGE_SIZE'' \<mapsto> ''1024''] = 262144
   \<and> publisher_MAX_MESSAGE_SIZE [''MAX_MESSAGE_SIZE'' \<mapsto> ''1024''] \<noteq> 1024
   \<and> subscriber_MAX_MESSAGE_SIZE [''MAX_MESSAGE_SIZE'' \<mapsto> ''1024''] \<noteq> 1024"
  by (simp add: publisher_MAX_MESSAGE_SIZE_def subscriber_MAX_MESSAGE_SIZE_def)

section \<open>Input validation\<close>











section \<open>Correlation identifiers\<close>














section \<open>The structure check\<close>

lemma validate_message_structure_Inl:
  "validate_message_structure env dumps message mid = Inl e \<Longrightarrow>
     e = MessageProcessingError (MustBeObject mid)
     \<or> e = MessageProcessingError (MissingField mid ''data'')
     \<or> e = MessageProcessingError (SizeExceeds mid (length (dumps message)))"
  by (auto simp: validate_message_structure_def split: json.splits if_splits)

lemma process_sns_record_body_Inr:
  "process_sns_record_body env loads dumps r record = Inr result \<Longrightarrow>
     \<exists>sns_data message_id body message_attributes parsed_message correlation_id source processing_result.
        py_get record ''Sns'' (JObj []) = Inr sns_data
        \<and> py_get sns_data ''MessageId'' JNull = Inr message_id
        \<and> py_get sns_data ''Message'' (JStr ''{}'') = Inr (JStr body)
        \<and> loads body = Inr parsed_message
        \<and> validate_message_structure env dumps parsed_message message_id = Inr ()
        \<and> process_message_content parsed_message = Inr processing_result
        \<and> py_get sns_data ''MessageAttributes'' (JObj []) = Inr message_attributes
        \<and> extract_correlation_id r message_attributes parsed_message = Inr correlation_id
        \<and> extract_source message_attributes parsed_message = Inr source
        \<and> result = [(''status'', J (JStr ''success'')),
                     (''messageId'', J message_id),
                     (''correlationId'', J correlation_id),
                     (''source'', J source),
                     (''processingResult'', Dict processing_result),
                     (''timestamp'', Timestamp)]"
  unfolding process_sns_record_body_def bnd_def parse_body_def
  by (auto split: sum.splits json.splits option.splits loads_exc.splits)

lemma process_sns_record_Inr:
  "process_sns_record env loads dumps r record = Inr result \<longleftrightarrow>
   process_sns_record_body env loads dumps r record = Inr result"
  by (auto simp: process_sns_record_def split: sum.splits)

lemma process_sns_record_Inl:
  "process_sns_record env loads dumps r record = Inl e \<Longrightarrow> is_MessageProcessingError e"
  by (auto simp: process_sns_record_def split: sum.splits if_splits)

lemma extract_field_Inl:
  "extract_field attrs a parsed k dflt = Inl e \<Longrightarrow> e = TypeError \<or> e = AttributeError"
  by (cases attrs) (auto simp: extract_field_def split: option.splits if_splits json.splits elim: py_get.elims)

lemma extract_Inl:
  "extract_correlation_id r attrs parsed = Inl e \<Longrightarrow> \<not> is_MessageProcessingError e"
  "extract_source attrs parsed = Inl e \<Longrightarrow> \<not> is_MessageProcessingError e"
  by (auto simp: extract_correlation_id_def extract_source_def dest: extract_field_Inl)

lemma process_sns_record_invalid:
  assumes "py_get record ''Sns'' (JObj []) = Inr sns_data"
    and "py_get sns_data ''MessageId'' JNull = Inr message_id"
    and "py_get sns_data ''Message'' (JStr ''{}'') = Inr (JStr body)"
    and "loads body = Inr parsed_message"
    and "validate_message_structure env dumps parsed_message message_id = Inl e"
  shows "\<exists>m. process_sns_record env loads dumps r record = Inl (MessageProcessingError m)
            \<and> (\<forall>x. m \<noteq> ContentFailed x)"
proof -
  from assms(2) obtain d where d: "sns_data = JObj d" by (cases sns_data) auto
  from validate_message_structure_Inl [OF assms(5)]
  have e: "is_MessageProcessingError e" "\<forall>x. e \<noteq> MessageProcessingError (ContentFailed x)"
    by auto
  show ?thesis
    using assms e d unfolding process_sns_record_def process_sns_record_body_def bnd_def parse_body_def
    by (cases e) (auto split: sum.splits dest: extract_Inl)
qed


lemmas handler_defs =
  subscriber_lambda_handler_def lambda_handler_with_def records_of_def bnd_def
  process_sns_record_def process_sns_record_body_def create_sns_record_def parse_body_def
  test_loads_def test_dumps_def loads_of_def dumps_of_def extract_correlation_id_def
  extract_source_def extract_field_def validate_message_structure_def record_id_def
  failure_entry_def process_message_content_def dispatch_def py_split_def py_isspace_def
  subscriber_MAX_MESSAGE_SIZE_def sns_shaped_def status_of_def raising_stub_def entry_of_def


section \<open>The batch loop\<close>

lemma sns_shaped_record_id: "sns_shaped record \<Longrightarrow> \<exists>rid. record_id record = Inr rid"
  by (cases "record_id record") (auto simp: sns_shaped_def)

lemma entry_of_shaped: "sns_shaped record \<Longrightarrow> \<exists>entry. entry_of proc i record = Inr entry"
  by (cases "proc i record") (auto simp: entry_of_def bnd_def dest: sns_shaped_record_id)

lemma process_records_shaped:
  "\<forall>r \<in> set rs. sns_shaped r \<Longrightarrow>
   \<exists>res'. process_records proc i rs (s, f, res) =
            Inr (s + length (filter (\<lambda>(k, r). \<not> isl (proc k r)) (enumerate i rs)),
                 f + length (filter (\<lambda>(k, r). isl (proc k r)) (enumerate i rs)),
                 res @ res')
          \<and> map Inr res' = map (\<lambda>(k, r). entry_of proc k r) (enumerate i rs)"
proof (induction rs arbitrary: i s f res)
  case Nil
  then show ?case by simp
next
  case (Cons r rs)
  then have shaped: "sns_shaped r" and rest: "\<forall>r \<in> set rs. sns_shaped r" by auto
  show ?case
  proof (cases "proc i r")
    case (Inr result)
    from Cons.IH [OF rest, of "Suc i" "s + 1" f "res @ [result]"]
    obtain res' where
      "process_records proc (Suc i) rs (s + 1, f, res @ [result]) =
         Inr (s + 1 + length (filter (\<lambda>(k, r). \<not> isl (proc k r)) (enumerate (Suc i) rs)),
              f + length (filter (\<lambda>(k, r). isl (proc k r)) (enumerate (Suc i) rs)),
              (res @ [result]) @ res')"
      "map Inr res' = map (\<lambda>(k, r). entry_of proc k r) (enumerate (Suc i) rs)"
      by blast
    with Inr show ?thesis
      by (intro exI [of _ "result # res'"]) (simp add: entry_of_def)
  next
    case (Inl e)
    from sns_shaped_record_id [OF shaped] obtain rid where rid: "record_id r = Inr rid" by blast
    from Cons.IH [OF rest, of "Suc i" s "f + 1" "res @ [failure_entry e rid]"]
    obtain res' where
      "process_records proc (Suc i) rs (s, f + 1, res @ [failure_entry e rid]) =
         Inr (s + length (filter (\<lambda>(k, r). \<not> isl (proc k r)) (enumerate (Suc i) rs)),
              f + 1 + length (filter (\<lambda>(k, r). isl (proc k r)) (enumerate (Suc i) rs)),
              (res @ [failure_entry e rid]) @ res')"
      "map Inr res' = map (\<lambda>(k, r). entry_of proc k r) (enumerate (Suc i) rs)"
      by blast
    with Inl rid show ?thesis
      by (intro exI [of _ "failure_entry e rid # res'"]) (simp add: entry_of_def bnd_def)
  qed
qed

lemma filter_split_length:
  "length (filter (\<lambda>x. \<not> P x) xs) + length (filter P xs) = length xs"
  using sum_length_filter_compl [of P xs] by simp

lemma lambda_handler_with_shaped:
  assumes recs: "records_of event = Inr rs" and shaped: "\<forall>r \<in> set rs. sns_shaped r"
  shows "\<exists>sm. lambda_handler_with proc event = Inr (Summary sm)
           \<and> map Inr (results sm) = map (\<lambda>(k, r). entry_of proc k r) (enumerate 0 rs)
           \<and> length (results sm) = length rs
           \<and> processedRecords sm = length rs
           \<and> successfulRecords sm = length (filter (\<lambda>(k, r). \<not> isl (proc k r)) (enumerate 0 rs))
           \<and> failedRecords sm = length (filter (\<lambda>(k, r). isl (proc k r)) (enumerate 0 rs))
           \<and> successfulRecords sm + failedRecords sm = length rs
           \<and> statusCode sm = (if failedRecords sm = 0 then 200 else 207)"
proof -
  from process_records_shaped [OF shaped, of proc 0 0 0 "[]"]
  obtain res' where pr: "process_records proc 0 rs (0, 0, []) =
            Inr (length (filter (\<lambda>(k, r). \<not> isl (proc k r)) (enumerate 0 rs)),
                 length (filter (\<lambda>(k, r). isl (proc k r)) (enumerate 0 rs)),
                 res')"
     and m: "map Inr res' = map (\<lambda>(k, r). entry_of proc k r) (enumerate 0 rs)"
    by auto
  from m have "length (map Inr res' :: (exc + pydict) list) = length (map (\<lambda>(k, r). entry_of proc k r) (enumerate 0 rs))"
    by simp
  then have len: "length res' = length rs" by simp
  have split: "length (filter (\<lambda>(k, r). \<not> isl (proc k r)) (enumerate 0 rs))
      + length (filter (\<lambda>(k, r). isl (proc k r)) (enumerate 0 rs)) = length rs"
    using filter_split_length [of "\<lambda>(k, r). isl (proc k r)" "enumerate 0 rs"]
    by (simp add: case_prod_unfold)
  show ?thesis
    using recs pr m len split
    by (simp add: lambda_handler_with_def bnd_def)
qed

lemma results_nth:
  assumes "map Inr res = map (\<lambda>(k, r). entry_of proc k r) (enumerate 0 rs)" and "i < length rs"
  shows "entry_of proc i (rs ! i) = Inr (res ! i)"
proof -
  from assms(1) have "length (map Inr res :: (exc + pydict) list) = length (map (\<lambda>(k, r). entry_of proc k r) (enumerate 0 rs))"
    by simp
  then have len: "length res = length rs" by simp
  from assms(1) have "(map Inr res :: (exc + pydict) list) ! i = map (\<lambda>(k, r). entry_of proc k r) (enumerate 0 rs) ! i"
    by simp
  with assms(2) len show ?thesis by (simp add: nth_enumerate_eq)
qed

lemma process_records_inv:
  "process_records proc i rs (s, f, res) = Inr (s', f', res') \<Longrightarrow>
   (\<And>k r out. proc k r = Inr out \<Longrightarrow> P out) \<Longrightarrow>
   (\<And>k r e rid. proc k r = Inl e \<Longrightarrow> P (failure_entry e rid)) \<Longrightarrow>
   \<forall>x \<in> set res. P x \<Longrightarrow> \<forall>x \<in> set res'. P x"
proof (induction rs arbitrary: i s f res)
  case Nil
  then show ?case by simp
next
  case (Cons r rs)
  show ?case
  proof (cases "proc i r")
    case (Inr result)
    with Cons.prems(1) have
      "process_records proc (Suc i) rs (s + 1, f, res @ [result]) = Inr (s', f', res')" by simp
    moreover have "\<forall>x \<in> set (res @ [result]). P x"
      using Cons.prems(4) Cons.prems(2) [OF Inr] by simp
    ultimately show ?thesis
      using Cons.IH Cons.prems(2,3) by blast
  next
    case (Inl e)
    with Cons.prems(1) obtain rid where
      "process_records proc (Suc i) rs (s, f + 1, res @ [failure_entry e rid]) = Inr (s', f', res')"
      by (auto split: sum.splits)
    moreover have "\<forall>x \<in> set (res @ [failure_entry e rid]). P x"
      using Cons.prems(4) Cons.prems(3) [OF Inl] by simp
    ultimately show ?thesis
      using Cons.IH Cons.prems(2,3) by blast
  qed
qed

lemma lambda_handler_with_inv:
  assumes "lambda_handler_with proc event = Inr (Summary sm)"
    and "\<And>k r out. proc k r = Inr out \<Longrightarrow> P out"
    and "\<And>k r e rid. proc k r = Inl e \<Longrightarrow> P (failure_entry e rid)"
  shows "\<forall>x \<in> set (results sm). P x"
proof -
  from assms(1) obtain rs s f where
    "process_records proc 0 rs (0, 0, []) = Inr (s, f, results sm)"
    by (auto simp: lambda_handler_with_def bnd_def split: sum.splits prod.splits)
  from process_records_inv [OF this, of P] assms(2,3) show ?thesis by simp
qed

lemma status_of_failure_entry:
  "status_of (failure_entry e rid) =
     Some (J (JStr (if is_MessageProcessingError e then ''failed'' else ''error'')))"
  by (simp add: status_of_def failure_entry_def)

lemma records_of_array: "map_of event ''Records'' = Some (JArr rs) \<Longrightarrow> records_of event = Inr rs"
  by (simp add: records_of_def)

lemma missing_data_fails:
  assumes "py_get record ''Sns'' (JObj []) = Inr sns_data"
    and "py_get sns_data ''MessageId'' JNull = Inr message_id"
    and "py_get sns_data ''Message'' (JStr ''{}'') = Inr (JStr body)"
    and "loads body = Inr (JObj d)" and "map_of d ''data'' = None"
  shows "\<exists>e. process_sns_record env loads dumps r record = Inl e \<and> is_MessageProcessingError e"
proof -
  have "validate_message_structure env dumps (JObj d) message_id
          = Inl (MessageProcessingError (MissingField message_id ''data''))"
    using assms(5) by (simp add: validate_message_structure_def)
  from process_sns_record_invalid [where loads = loads and r = r, OF assms(1-4) this]
  show ?thesis by auto
qed

lemma failed_positive:
  assumes "i < length rs" and "isl (proc i (rs ! i))"
  shows "0 < length (filter (\<lambda>(k, r). isl (proc k r)) (enumerate 0 rs))"
proof -
  from assms(1) have "(i, rs ! i) \<in> set (enumerate 0 rs)"
    by (simp add: in_set_enumerate_eq)
  with assms(2) have "(i, rs ! i) \<in> set (filter (\<lambda>(k, r). isl (proc k r)) (enumerate 0 rs))"
    by simp
  then show ?thesis by (metis length_pos_if_in_set)
qed

text \<open>
  For every event whose \<open>Records\<close> is a list of records as the transport delivers
  them (each a dictionary whose \<open>Sns\<close> entry, when present, is a dictionary), the
  handler returns the batch summary: every record is attempted, the results
  hold one entry per record, in the order of the records, the \<open>i\<close>-th entry being what
  the \<open>i\<close>-th record alone gives; the success and failure counts add up to the number
  of records; and the status code is 200 when no record failed and 207 otherwise. In
  a batch of two records where the first is processed and the decoded message of
  the second lacks \<open>data\<close>, there is one success and one failure, the status code is
  207 and the second entry has status \<open>failed\<close>.
\<close>

theorem batch_partial_failure:
  assumes recs: "map_of event ''Records'' = Some (JArr rs)"
    and shaped: "\<forall>r \<in> set rs. sns_shaped r"
  shows "\<exists>sm. subscriber_lambda_handler env loads dumps rnd event = Inr (Summary sm)
     \<and> length (results sm) = length rs
     \<and> (\<forall>i < length rs.
           entry_of (\<lambda>k. process_sns_record env loads dumps (rnd k)) i (rs ! i) = Inr (results sm ! i))
     \<and> processedRecords sm = length rs
     \<and> successfulRecords sm + failedRecords sm = length rs
     \<and> failedRecords sm =
         length (filter (\<lambda>(k, r). isl (process_sns_record env loads dumps (rnd k) r)) (enumerate 0 rs))
     \<and> statusCode sm = (if failedRecords sm = 0 then 200 else 207)
     \<and> (\<forall>r1 r2 ok sns_data message_id body d.
           rs = [r1, r2] \<and> process_sns_record env loads dumps (rnd 0) r1 = Inr ok
           \<and> py_get r2 ''Sns'' (JObj []) = Inr sns_data
           \<and> py_get sns_data ''MessageId'' JNull = Inr message_id
           \<and> py_get sns_data ''Message'' (JStr ''{}'') = Inr (JStr body)
           \<and> loads body = Inr (JObj d) \<and> map_of d ''data'' = None \<longrightarrow>
           successfulRecords sm = 1 \<and> failedRecords sm = 1 \<and> statusCode sm = 207
           \<and> results sm ! 0 = ok
           \<and> status_of (results sm ! 1) = Some (J (JStr ''failed'')))"
proof -
  let ?proc = "\<lambda>k. process_sns_record env loads dumps (rnd k)"
  from lambda_handler_with_shaped [OF records_of_array [OF recs] shaped, of ?proc]
  obtain sm where sm: "lambda_handler_with ?proc event = Inr (Summary sm)"
    "map Inr (results sm) = map (\<lambda>(k, r). entry_of ?proc k r) (enumerate 0 rs)"
    "length (results sm) = length rs"
    "processedRecords sm = length rs"
    "successfulRecords sm = length (filter (\<lambda>(k, r). \<not> isl (?proc k r)) (enumerate 0 rs))"
    "failedRecords sm = length (filter (\<lambda>(k, r). isl (?proc k r)) (enumerate 0 rs))"
    "successfulRecords sm + failedRecords sm = length rs"
    "statusCode sm = (if failedRecords sm = 0 then 200 else 207)"
    by blast
  have nth: "\<forall>i < length rs. entry_of ?proc i (rs ! i) = Inr (results sm ! i)"
    using results_nth [OF sm(2)] by blast
  have two: "successfulRecords sm = 1 \<and> failedRecords sm = 1 \<and> statusCode sm = 207
           \<and> results sm ! 0 = ok
           \<and> status_of (results sm ! 1) = Some (J (JStr ''failed''))"
    if h: "rs = [r1, r2]" "process_sns_record env loads dumps (rnd 0) r1 = Inr ok"
      "py_get r2 ''Sns'' (JObj []) = Inr sns_data"
      "py_get sns_data ''MessageId'' JNull = Inr message_id"
      "py_get sns_data ''Message'' (JStr ''{}'') = Inr (JStr body)"
      "loads body = Inr (JObj d)" "map_of d ''data'' = None"
    for r1 r2 ok sns_data message_id body d
  proof -
    from missing_data_fails [where loads = loads and env = env and dumps = dumps and r = "rnd 1",
        OF h(3-7)]
    obtain e where e: "process_sns_record env loads dumps (rnd 1) r2 = Inl e"
      "is_MessageProcessingError e" by blast
    from shaped h(1) have "sns_shaped r2" by simp
    then obtain rid where rid: "record_id r2 = Inr rid"
      using sns_shaped_record_id by blast
    from nth h(1) have e0: "entry_of ?proc 0 r1 = Inr (results sm ! 0)"
      and e1: "entry_of ?proc 1 r2 = Inr (results sm ! 1)" by auto
    from e0 h(2) have r0: "results sm ! 0 = ok" by (simp add: entry_of_def)
    from e1 e(1) rid have r1: "results sm ! 1 = failure_entry e rid"
      by (simp add: entry_of_def bnd_def)
    have counts: "successfulRecords sm = 1" "failedRecords sm = 1"
      using sm(5,6) h(1,2) e(1) by simp_all
    with sm(8) r0 r1 e(2) show ?thesis by (simp add: status_of_failure_entry)
  qed
  show ?thesis
    using sm nth two unfolding subscriber_lambda_handler_def
    by (intro exI [of _ sm]) blast
qed

theorem batch_partial_failure_witness:
  \<open>subscriber_lambda_handler Map.empty test_loads test_dumps of_nat
     [(''Records'', JArr [create_sns_record ''{"data": {"message": "test message"}}'' ''m-1'',
                          create_sns_record ''{"invalid": "structure"}'' ''m-2''])]
   = Inr (Summary
       \<lparr>statusCode = 207, processedRecords = 2, successfulRecords = 1, failedRecords = 1,
        results =
          [ [(''status'', J (JStr ''success'')),
            (''messageId'', J (JStr ''m-1'')),
            (''correlationId'', J (JStr ''test-correlation-id'')),
            (''source'', J (JStr ''publisher-lambda'')),
            (''processingResult'', Dict
               [(''type'', J (JStr ''text'')),
                (''processed'', J (JBool True)),
                (''details'', Dict
                   [(''type'', J (JStr ''text'')), (''wordCount'', J (JInt 2)),
                    (''charCount'', J (JInt 12)), (''processed'', J (JBool True))]),
                (''processingTime'', Timestamp)]),
            (''timestamp'', Timestamp)],
           [(''status'', J (JStr ''failed'')),
            (''error'', ErrText (MessageProcessingError (MissingField (JStr ''m-2'') ''data''))),
            (''record_id'', J (JStr ''m-2''))]]\<rparr>)\<close>
  using batch_partial_failure [where env = Map.empty and loads = test_loads and dumps = test_dumps
          and rnd = of_nat
          and event = \<open>[(''Records'', JArr [create_sns_record ''{"data": {"message": "test message"}}'' ''m-1'',
                          create_sns_record ''{"invalid": "structure"}'' ''m-2''])]\<close>
          and rs = \<open>[create_sns_record ''{"data": {"message": "test message"}}'' ''m-1'',
                          create_sns_record ''{"invalid": "structure"}'' ''m-2'']\<close>]
  by (simp add: handler_defs)

text \<open>
  Claim C4 says that no record failure aborts the loop and that the reply holds one
  result per record with status code 200 or 207. The loop has a handler for every
  exception of the processor, but the handler's own id lookup
  \<open>record.get('Sns', {}).get('MessageId', 'unknown')\<close> raises when the record's \<open>Sns\<close>
  entry is not a dictionary. For the batch of the record \<open>{"Sns": null}\<close> followed by
  a record that is processed successfully when it comes alone, the loop is left at
  the first record, the second is never attempted, and the reply is the
  critical-error one, with status code 500 and no results.
\<close>

theorem malformed_record_aborts_batch:
  \<open>subscriber_lambda_handler Map.empty test_loads test_dumps of_nat
     [(''Records'', JArr [JObj [(''Sns'', JNull)],
         create_sns_record ''{"data": {"message": "test message"}}'' ''m-1''])]
   = Inr CriticalError
   \<and> reply_status CriticalError = 500
   \<and> subscriber_lambda_handler Map.empty test_loads test_dumps of_nat
     [(''Records'', JArr [create_sns_record ''{"data": {"message": "test message"}}'' ''m-1''])]
   = Inr (Summary
       \<lparr>statusCode = 200, processedRecords = 1, successfulRecords = 1, failedRecords = 0,
        results =
          [ [(''status'', J (JStr ''success'')),
            (''messageId'', J (JStr ''m-1'')),
            (''correlationId'', J (JStr ''test-correlation-id'')),
            (''source'', J (JStr ''publisher-lambda'')),
            (''processingResult'', Dict
               [(''type'', J (JStr ''text'')),
                (''processed'', J (JBool True)),
                (''details'', Dict
                   [(''type'', J (JStr ''text'')), (''wordCount'', J (JInt 2)),
                    (''charCount'', J (JInt 12)), (''processed'', J (JBool True))]),
                (''processingTime'', Timestamp)]),
            (''timestamp'', Timestamp)]]\<rparr>)\<close>
  by (simp add: handler_defs reply_status_def)

text \<open>
  For every record of such a batch, whatever the per-record processor is:
  when it raises \<open>MessageProcessingError\<close> the entry has status \<open>failed\<close>; when it raises
  any other exception the entry has status \<open>error\<close>; in both cases the summary is
  still returned with one entry per record and status code 207; when it returns
  normally the entry is its result, which for \<open>process_sns_record\<close> has status
  \<open>success\<close>.
\<close>

theorem record_status_by_exception:
  assumes recs: "records_of event = Inr rs"
    and shaped: "\<forall>r \<in> set rs. sns_shaped r"
    and i: "i < length rs"
  shows "\<exists>sm. lambda_handler_with proc event = Inr (Summary sm)
     \<and> length (results sm) = length rs
     \<and> (\<forall>m. proc i (rs ! i) = Inl (MessageProcessingError m) \<longrightarrow>
           status_of (results sm ! i) = Some (J (JStr ''failed'')) \<and> statusCode sm = 207)
     \<and> (\<forall>e. proc i (rs ! i) = Inl e \<and> \<not> is_MessageProcessingError e \<longrightarrow>
           status_of (results sm ! i) = Some (J (JStr ''error'')) \<and> statusCode sm = 207)
     \<and> (\<forall>result. proc i (rs ! i) = Inr result \<longrightarrow> results sm ! i = result)
     \<and> (\<forall>result. process_sns_record env loads dumps r (rs ! i) = Inr result \<longrightarrow>
           status_of result = Some (J (JStr ''success'')))"
proof -
  from lambda_handler_with_shaped [OF recs shaped, of proc]
  obtain sm where sm: "lambda_handler_with proc event = Inr (Summary sm)"
    "map Inr (results sm) = map (\<lambda>(k, r). entry_of proc k r) (enumerate 0 rs)"
    "length (results sm) = length rs"
    "failedRecords sm = length (filter (\<lambda>(k, r). isl (proc k r)) (enumerate 0 rs))"
    "statusCode sm = (if failedRecords sm = 0 then 200 else 207)"
    by blast
  from results_nth [OF sm(2) i] have nth: "entry_of proc i (rs ! i) = Inr (results sm ! i)" .
  from shaped i obtain rid where rid: "record_id (rs ! i) = Inr rid"
    using sns_shaped_record_id nth_mem by blast
  have fail: "status_of (results sm ! i)
        = Some (J (JStr (if is_MessageProcessingError e then ''failed'' else ''error'')))
      \<and> statusCode sm = 207" if e: "proc i (rs ! i) = Inl e" for e
  proof -
    from nth e rid have "results sm ! i = failure_entry e rid"
      by (simp add: entry_of_def bnd_def)
    moreover from failed_positive [OF i, of proc] e sm(4) have "failedRecords sm \<noteq> 0" by simp
    ultimately show ?thesis using sm(5) by (simp add: status_of_failure_entry)
  qed
  have ok: "results sm ! i = result" if "proc i (rs ! i) = Inr result" for result
    using nth that by (simp add: entry_of_def)
  have real: "status_of result = Some (J (JStr ''success''))"
    if "process_sns_record env loads dumps r (rs ! i) = Inr result" for result
    using process_sns_record_body_Inr [of env loads dumps r "rs ! i" result] that
    by (auto simp: process_sns_record_Inr status_of_def)
  show ?thesis
    using sm(1,3) fail ok real by (intro exI [of _ sm]) auto
qed

theorem record_status_by_exception_witness:
  \<open>lambda_handler_with raising_stub
     [(''Records'', JArr [create_sns_record ''{"data": {"message": "test"}}'' ''test-message-id''])]
   = Inr (Summary
       \<lparr>statusCode = 207, processedRecords = 1, successfulRecords = 0, failedRecords = 1,
        results =
          [ [(''status'', J (JStr ''error'')),
            (''error'', ErrText (PyException ''Unexpected error'')),
            (''record_id'', J (JStr ''test-message-id''))]]\<rparr>)\<close>
  using record_status_by_exception [where proc = raising_stub and i = 0
          and event = \<open>[(''Records'', JArr [create_sns_record ''{"data": {"message": "test"}}'' ''test-message-id''])]\<close>
          and rs = \<open>[create_sns_record ''{"data": {"message": "test"}}'' ''test-message-id'']\<close>]
  by (simp add: handler_defs)

text \<open>
  Claim C5 says that a record whose processing raises gets status \<open>failed\<close> or
  \<open>error\<close>, that the batch continues and that the status code is 207. For the record
  \<open>{"Sns": "x"}\<close> the processor raises \<open>MessageProcessingError\<close> (the stub of the unit
  test raises its plain exception), and in both cases the id lookup inside the
  \<open>except\<close> clause raises in turn: no entry and no status is recorded, a record that
  follows is not attempted, and the status code of the reply is 500.
\<close>

theorem malformed_record_gets_no_status:
  \<open>process_sns_record Map.empty test_loads test_dumps 0 (JObj [(''Sns'', JStr ''x'')])
     = Inl (MessageProcessingError (UnexpectedError AttributeError))
   \<and> subscriber_lambda_handler Map.empty test_loads test_dumps of_nat
       [(''Records'', JArr [JObj [(''Sns'', JStr ''x'')]])]
     = Inr CriticalError
   \<and> raising_stub 0 (JObj [(''Sns'', JStr ''x'')]) = Inl (PyException ''Unexpected error'')
   \<and> lambda_handler_with raising_stub
       [(''Records'', JArr [JObj [(''Sns'', JStr ''x'')],
           create_sns_record ''{"data": {"message": "test"}}'' ''test-message-id''])]
     = Inr CriticalError
   \<and> reply_status CriticalError = 500\<close>
  by (simp add: handler_defs reply_status_def)

section \<open>Result entries\<close>

lemma process_message_content_keys:
  "process_message_content message = Inr pr \<Longrightarrow>
     map fst pr = [''type'', ''processed'', ''details'', ''processingTime'']"
  by (auto simp: process_message_content_def split: sum.splits)

lemma process_sns_record_shape:
  assumes "process_sns_record env loads dumps r record = Inr result"
  shows "status_of result = Some (J (JStr ''success''))
     \<and> map fst result = [''status'', ''messageId'', ''correlationId'', ''source'',
                          ''processingResult'', ''timestamp'']
     \<and> (\<exists>pr. map_of result ''processingResult'' = Some (Dict pr)
            \<and> map fst pr = [''type'', ''processed'', ''details'', ''processingTime''])"
proof -
  from assms have "process_sns_record_body env loads dumps r record = Inr result"
    by (simp add: process_sns_record_Inr)
  from process_sns_record_body_Inr [OF this] show ?thesis
    by (auto simp: status_of_def dest: process_message_content_keys)
qed

text \<open>
  Claim C8, as the code has it. Every entry of the results carries \<open>status\<close>. An
  entry with status \<open>success\<close> has exactly the fields \<open>status\<close>, \<open>messageId\<close>,
  \<open>correlationId\<close>, \<open>source\<close>, \<open>processingResult\<close> and \<open>timestamp\<close>, and its
  \<open>processingResult\<close> holds \<open>type\<close>, \<open>processed\<close>, \<open>details\<close> and \<open>processingTime\<close>. An entry
  for a record that failed has exactly the fields \<open>status\<close> (\<open>failed\<close>, or \<open>error\<close> for
  an exception other than \<open>MessageProcessingError\<close>), \<open>error\<close> and \<open>record_id\<close>.
\<close>

theorem result_fields:
  "(subscriber_lambda_handler env loads dumps rnd event = Inr (Summary sm) \<longrightarrow>
      (\<forall>res \<in> set (results sm).
          (status_of res = Some (J (JStr ''success''))
           \<and> map fst res = [''status'', ''messageId'', ''correlationId'', ''source'',
                             ''processingResult'', ''timestamp'']
           \<and> (\<exists>pr. map_of res ''processingResult'' = Some (Dict pr)
                  \<and> map fst pr = [''type'', ''processed'', ''details'', ''processingTime'']))
        \<or> (status_of res = Some (J (JStr ''failed''))
           \<and> map fst res = [''status'', ''error'', ''record_id''])))
   \<and> map fst (failure_entry e rid) = [''status'', ''error'', ''record_id'']
   \<and> (status_of (failure_entry e rid) = Some (J (JStr ''failed''))
        \<or> status_of (failure_entry e rid) = Some (J (JStr ''error'')))"
proof (intro conjI impI)
  assume h: "subscriber_lambda_handler env loads dumps rnd event = Inr (Summary sm)"
  let ?P = "\<lambda>res. (status_of res = Some (J (JStr ''success''))
           \<and> map fst res = [''status'', ''messageId'', ''correlationId'', ''source'',
                             ''processingResult'', ''timestamp'']
           \<and> (\<exists>pr. map_of res ''processingResult'' = Some (Dict pr)
                  \<and> map fst pr = [''type'', ''processed'', ''details'', ''processingTime'']))
        \<or> (status_of res = Some (J (JStr ''failed''))
           \<and> map fst res = [''status'', ''error'', ''record_id''])"
  have ok: "?P out" if "process_sns_record env loads dumps (rnd k) r = Inr out" for k r out
    using process_sns_record_shape [OF that] by blast
  have bad: "?P (failure_entry e rid)"
    if "process_sns_record env loads dumps (rnd k) r = Inl e" for k r e rid
    using process_sns_record_Inl [OF that]
    by (simp add: status_of_failure_entry) (simp add: failure_entry_def)
  from h have "lambda_handler_with (\<lambda>k. process_sns_record env loads dumps (rnd k)) event
      = Inr (Summary sm)"
    by (simp add: subscriber_lambda_handler_def)
  from lambda_handler_with_inv [OF this, of ?P] ok bad
  show "\<forall>res \<in> set (results sm). ?P res" by blast
qed (simp_all add: failure_entry_def status_of_def)

theorem result_fields_witness:
  \<open>subscriber_lambda_handler Map.empty test_loads test_dumps of_nat
     [(''Records'', JArr [JObj [(''Sns'', JObj [(''Message'', JInt 5)])]])]
   = Inr (Summary
       \<lparr>statusCode = 207, processedRecords = 1, successfulRecords = 0, failedRecords = 1,
        results = [ [(''status'', J (JStr ''failed'')),
          (''error'', ErrText (MessageProcessingError (UnexpectedError TypeError))),
          (''record_id'', J (JStr ''unknown''))]]\<rparr>)
   \<and> map fst [(''status'', J (JStr ''failed'')),
          (''error'', ErrText (MessageProcessingError (UnexpectedError TypeError))),
          (''record_id'', J (JStr ''unknown''))] = [''status'', ''error'', ''record_id'']
   \<and> status_of [(''status'', J (JStr ''failed'')),
          (''error'', ErrText (MessageProcessingError (UnexpectedError TypeError))),
          (''record_id'', J (JStr ''unknown''))] = Some (J (JStr ''failed''))\<close>
  using result_fields [where env = Map.empty and loads = test_loads and dumps = test_dumps
          and rnd = of_nat
          and event = \<open>[(''Records'', JArr [JObj [(''Sns'', JObj [(''Message'', JInt 5)])]])]\<close>
          and sm = \<open>\<lparr>statusCode = 207, processedRecords = 1, successfulRecords = 0, failedRecords = 1,
             results = [ [(''status'', J (JStr ''failed'')),
               (''error'', ErrText (MessageProcessingError (UnexpectedError TypeError))),
               (''record_id'', J (JStr ''unknown''))]]\<rparr>\<close>]
  by (simp add: handler_defs)

text \<open>
  The entry for a record whose message lacks \<open>data\<close> has no \<open>messageId\<close>, no
  \<open>correlationId\<close>, no \<open>type\<close> and no \<open>details\<close>.
\<close>

theorem result_fields_failed_entry:
  \<open>subscriber_lambda_handler Map.empty test_loads test_dumps of_nat
     [(''Records'', JArr [create_sns_record ''{"invalid": "structure"}'' ''test-message-id''])]
   = Inr (Summary
       \<lparr>statusCode = 207, processedRecords = 1, successfulRecords = 0, failedRecords = 1,
        results =
          [ [(''status'', J (JStr ''failed'')),
            (''error'', ErrText (MessageProcessingError
                (MissingField (JStr ''test-message-id'') ''data''))),
            (''record_id'', J (JStr ''test-message-id''))]]\<rparr>)
   \<and> map_of [(''status'', J (JStr ''failed'')),
            (''error'', ErrText (MessageProcessingError
                (MissingField (JStr ''test-message-id'') ''data''))),
            (''record_id'', J (JStr ''test-message-id''))] ''correlationId'' = None
   \<and> map_of [(''status'', J (JStr ''failed'')),
            (''error'', ErrText (MessageProcessingError
                (MissingField (JStr ''test-message-id'') ''data''))),
            (''record_id'', J (JStr ''test-message-id''))] ''messageId'' = None
   \<and> map_of [(''status'', J (JStr ''failed'')),
            (''error'', ErrText (MessageProcessingError
                (MissingField (JStr ''test-message-id'') ''data''))),
            (''record_id'', J (JStr ''test-message-id''))] ''type'' = None
   \<and> map_of [(''status'', J (JStr ''failed'')),
            (''error'', ErrText (MessageProcessingError
                (MissingField (JStr ''test-message-id'') ''data''))),
            (''record_id'', J (JStr ''test-message-id''))] ''details'' = None\<close>
  by (simp add: handler_defs)

section \<open>Exceptions of the record processor\<close>




end
